theory Spec2Isabelle
  imports Complex_Main
begin

section \<open>Tensors\<close>

text \<open>
  The repository's single source file, \<^verbatim>\<open>translate/models.py\<close>, builds a TensorFlow graph.
  A tensor of shape (batch, time) is a list of rows, one row per batch entry; integer
  tensors hold \<^typ>\<open>int\<close>, float tensors hold \<^typ>\<open>real\<close> (the rounding of float32 is not
  modelled; its range is, where the source calls \<^verbatim>\<open>tf.exp\<close>: see \<open>float32_exp\<close> below).
  An operation along \<open>axis=1\<close> works on each row separately. The time length that TensorFlow reads off the tensor's shape
  is the length of the row.
\<close>

subsection \<open>The masking utility \<^verbatim>\<open>get_weights\<close>\<close>

text \<open>\<^verbatim>\<open>tf.cumsum(x, axis=1)\<close> on one row: inclusive running sums.\<close>

fun cumsum_from :: "real \<Rightarrow> real list \<Rightarrow> real list" where
  "cumsum_from a [] = []"
| "cumsum_from a (x # xs) = (a + x) # cumsum_from (a + x) xs"

definition cumsum :: "real list \<Rightarrow> real list" where
  "cumsum xs = cumsum_from 0 xs"

text \<open>\<^verbatim>\<open>tf.to_float\<close> of a boolean.\<close>

definition to_float :: "bool \<Rightarrow> real" where
  "to_float b = (if b then 1 else 0)"

text \<open>
  One row of \<^verbatim>\<open>get_weights\<close>:
  \<^verbatim>\<open>
  cumsum = tf.cumsum(tf.to_float(tf.not_equal(sequence, eos_id)), axis=1)
  range_ = tf.range(start=1, limit=tf.shape(sequence)[1] + 1)
  weights = tf.to_float(tf.equal(cumsum, tf.to_float(range_)))
  if include_first_eos:
      weights = weights[:,:-1]
      weights = tf.concat([tf.ones(...), weights], axis=1)
  \<close>
  The slice \<^verbatim>\<open>[:, :-1]\<close> drops the last column (none when there is none), so it is
  \<^const>\<open>butlast\<close>.
\<close>

definition get_weights_row :: "int list \<Rightarrow> int \<Rightarrow> bool \<Rightarrow> real list" where
  "get_weights_row sequence eos_id include_first_eos =
     (let csum = cumsum (map (\<lambda>x. to_float (x \<noteq> eos_id)) sequence);
          rng = [1 ..< length sequence + 1];
          weights = map2 (\<lambda>c r. to_float (c = real r)) csum rng
      in if include_first_eos then 1 # butlast weights else weights)"

definition get_weights :: "int list list \<Rightarrow> int \<Rightarrow> bool \<Rightarrow> real list list" where
  "get_weights sequence eos_id include_first_eos =
     map (\<lambda>row. get_weights_row row eos_id include_first_eos) sequence"

text \<open>The 0-based position of the first end-of-sequence token of a row (its length when
  there is none).\<close>

definition first_eos :: "int list \<Rightarrow> int \<Rightarrow> nat" where
  "first_eos row eos_id = length (takeWhile (\<lambda>x. x \<noteq> eos_id) row)"

subsection \<open>Float results that need not be finite\<close>

text \<open>
  A float tensor whose entries are finite by construction holds \<^typ>\<open>real\<close>. A division can
  leave the finite numbers (TensorFlow never raises on it): its result, and everything
  computed from it, holds \<open>tf_float\<close>, the finite values together with the two
  infinities and NaN. Signed zeros are not kept apart; every zero divisor below is a sum
  of non-negative terms, a square or a length, that is a positive zero.
\<close>

datatype tf_float = Fin real | PInf | NInf | NaN



fun tf_neg :: "tf_float \<Rightarrow> tf_float" where
  "tf_neg (Fin x) = Fin (- x)"
| "tf_neg PInf = NInf"
| "tf_neg NInf = PInf"
| "tf_neg NaN = NaN"

fun tf_add :: "tf_float \<Rightarrow> tf_float \<Rightarrow> tf_float" where
  "tf_add (Fin x) (Fin y) = Fin (x + y)"
| "tf_add NaN y = NaN"
| "tf_add x NaN = NaN"
| "tf_add PInf NInf = NaN"
| "tf_add NInf PInf = NaN"
| "tf_add PInf y = PInf"
| "tf_add NInf y = NInf"
| "tf_add (Fin x) PInf = PInf"
| "tf_add (Fin x) NInf = NInf"

fun tf_mul :: "tf_float \<Rightarrow> tf_float \<Rightarrow> tf_float" where
  "tf_mul (Fin x) (Fin y) = Fin (x * y)"
| "tf_mul NaN y = NaN"
| "tf_mul x NaN = NaN"
| "tf_mul (Fin x) y = (if x = 0 then NaN else if 0 < x then y else tf_neg y)"
| "tf_mul x (Fin y) = (if y = 0 then NaN else if 0 < y then x else tf_neg x)"
| "tf_mul PInf y = y"
| "tf_mul NInf y = tf_neg y"

fun tf_divide :: "tf_float \<Rightarrow> tf_float \<Rightarrow> tf_float" where
  "tf_divide (Fin x) (Fin y) =
     (if y \<noteq> 0 then Fin (x / y) else if 0 < x then PInf else if x < 0 then NInf else NaN)"
| "tf_divide NaN y = NaN"
| "tf_divide x NaN = NaN"
| "tf_divide (Fin x) y = Fin 0"
| "tf_divide x (Fin y) = (if 0 \<le> y then x else tf_neg x)"
| "tf_divide PInf PInf = NaN"
| "tf_divide PInf NInf = NaN"
| "tf_divide NInf PInf = NaN"
| "tf_divide NInf NInf = NaN"

text \<open>
  \<^verbatim>\<open>tf.exp\<close> on a float32 number. Rounded to the nearest float32, the exponential is
  infinite from \<open>2 ^ 128 - 2 ^ 103\<close> on (half a step above the largest float32; an argument
  above 88.72) and 0 up to \<open>1 / 2 ^ 150\<close> (half the smallest positive float32; an argument
  below -103.97). In between, the result is the exponential itself.
\<close>

definition float32_overflow :: "real \<Rightarrow> bool" where
  "float32_overflow x \<longleftrightarrow> 2 ^ 128 - 2 ^ 103 \<le> exp x"

definition float32_underflow :: "real \<Rightarrow> bool" where
  "float32_underflow x \<longleftrightarrow> exp x \<le> 1 / 2 ^ 150"

definition float32_exp :: "real \<Rightarrow> tf_float" where
  "float32_exp x =
     (if float32_overflow x then PInf else if float32_underflow x then Fin 0 else Fin (exp x))"


text \<open>\<^verbatim>\<open>tf.reduce_sum\<close> over a row of such floats.\<close>

definition tf_sum :: "tf_float list \<Rightarrow> tf_float" where
  "tf_sum xs = foldl tf_add (Fin 0) xs"

subsection \<open>Helpers outside the source file\<close>


subsection \<open>The alignment position: \<^verbatim>\<open>update_pos\<close>\<close>

text \<open>
  The decoder configuration, with the attributes the modelled functions read.
\<close>

record decoder =
  pred_edits :: bool
  pred_maxout_layer :: bool
  cell_size :: int


subsection \<open>The next input token in \<^verbatim>\<open>_time_step\<close>\<close>

text \<open>
  A node of the graph, as far as gradients go: the value it computes, and whether the
  gradient of a loss flows back through it. \<^verbatim>\<open>tf.stop_gradient\<close> keeps the value and
  cuts the flow.
\<close>

datatype 'a graph_node = Node (node_output: 'a) (passes_gradient: bool)

definition stop_gradient :: "'a graph_node \<Rightarrow> 'a graph_node" where
  "stop_gradient n = Node (node_output n) False"

text \<open>
  \<^verbatim>\<open>tf.case(pred_fn_pairs, default)\<close> with the pairs given as a list (and
  \<^verbatim>\<open>exclusive=False\<close>): the branch of the first predicate that holds, the default when
  none does.
\<close>

fun tf_case :: "(bool \<times> 'a) list \<Rightarrow> 'a \<Rightarrow> 'a" where
  "tf_case [] dflt = dflt"
| "tf_case ((p, f) # pairs) dflt = (if p then f else tf_case pairs dflt)"

text \<open>\<^verbatim>\<open>TensorArray.read(i)\<close>: an index outside the array is an error.\<close>

definition tensor_array_read :: "'a list \<Rightarrow> nat \<Rightarrow> 'a option" where
  "tensor_array_read xs i = (if i < length xs then Some (xs ! i) else None)"

text \<open>\<^verbatim>\<open>tf.nn.softmax\<close> on one row of logits.\<close>

definition nn_softmax :: "real list \<Rightarrow> real list" where
  "nn_softmax row = map (\<lambda>x. exp x / sum_list (map exp row)) row"

text \<open>
  \<^verbatim>\<open>
  argmax = lambda: tf.argmax(output_, 1)
  target = lambda: inputs.read(time + 1)
  softmax = lambda: tf.squeeze(tf.multinomial(tf.log(tf.nn.softmax(output_)),
                                              num_samples=1), axis=1)
  use_target = tf.logical_and(time < time_steps - 1,
                              tf.random_uniform([]) >= feed_previous)
  predicted_symbol = tf.case([
      (use_target, target),
      (tf.logical_not(feed_argmax), softmax)],
      default=argmax)
  predicted_symbol = tf.stop_gradient(predicted_symbol)
  \<close>
  \<open>inputs\<close> is the tensor array of the decoder inputs, one entry (a batch of token ids)
  per time step, so \<open>time_steps\<close> is its length. \<open>time\<close> is the loop counter, which starts
  at 0 and counts up. The random draws belong to the execution engine: \<open>u\<close> is the number
  \<^verbatim>\<open>tf.random_uniform([])\<close> draws at this step, \<open>multinomial\<close> the sampler (given the
  log-probabilities of a batch, the class it draws for each row), \<open>argmax\<close> is
  \<^verbatim>\<open>tf.argmax\<close> along the vocabulary axis. A branch is only run when it is chosen, so the
  read of \<open>time + 1\<close> fails only where the target branch is taken.
\<close>

definition predicted_symbol ::
  "(real list list \<Rightarrow> int list) \<Rightarrow> (real list list \<Rightarrow> int list) \<Rightarrow> nat \<Rightarrow> int list list
   \<Rightarrow> real \<Rightarrow> real \<Rightarrow> bool \<Rightarrow> real list list \<Rightarrow> int list graph_node option" where
  "predicted_symbol multinomial argmax time inputs u feed_previous feed_argmax output =
     (let time_steps = int (length inputs);
          use_target = (int time < time_steps - 1 \<and> u \<ge> feed_previous);
          chosen = tf_case
            [(use_target, tensor_array_read inputs (time + 1)),
             (\<not> feed_argmax, Some (multinomial (map (\<lambda>row. map ln (nn_softmax row)) output)))]
            (Some (argmax output))
      in map_option (\<lambda>v. stop_gradient (Node v True)) chosen)"

subsection \<open>Losses\<close>

text \<open>
  \<^verbatim>\<open>sequence_loss(logits, targets, weights, average_across_timesteps=False,
  average_across_batch=True, rewards=None)\<close>. The cross-entropy of one position,
  \<^verbatim>\<open>tf.nn.sparse_softmax_cross_entropy_with_logits\<close>, is the execution engine's: the
  parameter \<open>xent\<close>, from the logits of the position and its target id. The reshapes
  flatten batch and time and restore them, so the cross-entropy of a position is computed
  from the logits and the target at that position.
\<close>

definition sequence_loss ::
  "(real list \<Rightarrow> int \<Rightarrow> real) \<Rightarrow> real list list list \<Rightarrow> int list list \<Rightarrow> real list list
   \<Rightarrow> bool \<Rightarrow> bool \<Rightarrow> real list list option \<Rightarrow> tf_float" where
  "sequence_loss xent logits targets weights average_across_timesteps average_across_batch rewards =
     (let batch = length targets;
          crossent = map2 (map2 xent) logits targets;
          crossent1 = (case rewards of None \<Rightarrow> crossent
                       | Some r \<Rightarrow> map2 (map2 (*)) crossent r);
          log_perp = map sum_list (map2 (map2 (*)) crossent1 weights);
          log_perp1 = (if average_across_timesteps
                       then map2 (\<lambda>lp w. tf_divide (Fin lp) (Fin (sum_list w + 1 / 10 ^ 12)))
                              log_perp weights
                       else map Fin log_perp);
          cost = tf_sum log_perp1
      in if average_across_batch then tf_divide cost (Fin (real batch)) else cost)"

text \<open>
  The losses that \<^verbatim>\<open>chained_encoder_decoder\<close> returns (the first component of its
  result):
  \<^verbatim>\<open>
  weights = get_weights(encoder_inputs_, utils.EOS_ID, include_first_eos=True)
  input_weights.append(weights)
  target_weights = get_weights(targets[:, 1:], utils.EOS_ID, include_first_eos=True)
  ...
  chaining_loss = sequence_loss(logits=outputs, targets=encoder_inputs[0],
                                weights=input_weights[0])
  ...
  xent_loss = sequence_loss(logits=outputs, targets=targets[:, 1:],
                            weights=target_weights)
  if chaining_loss is not None and chaining_loss_ratio:
      xent_loss += chaining_loss_ratio * chaining_loss
  losses = [xent_loss, None, None]
  \<close>
  The logits of the two decoders (\<open>outputs1\<close> of the first stage, \<open>outputs2\<close> of the
  second) come out of the learned network and are parameters, as is \<^verbatim>\<open>utils.EOS_ID\<close>.
  \<open>chaining_loss_ratio\<close> is a Python number or \<open>None\<close>; it counts as true when it is a
  number other than 0. \<open>chaining_loss\<close> is a tensor, never \<open>None\<close>. An entry of the result
  is \<open>None\<close> where the Python list holds \<open>None\<close>.
\<close>

definition chained_encoder_decoder ::
  "(real list \<Rightarrow> int \<Rightarrow> real) \<Rightarrow> int \<Rightarrow> real option \<Rightarrow> int list list \<Rightarrow> int list list
   \<Rightarrow> real list list list \<Rightarrow> real list list list \<Rightarrow> tf_float option list" where
  "chained_encoder_decoder xent eos_id chaining_loss_ratio encoder_inputs0 targets outputs1 outputs2 =
     (let input_weights0 = get_weights encoder_inputs0 eos_id True;
          target_weights = get_weights (map tl targets) eos_id True;
          chaining_loss = sequence_loss xent outputs1 encoder_inputs0 input_weights0 False True None;
          xent_loss = sequence_loss xent outputs2 (map tl targets) target_weights False True None;
          xent_loss1 = (case chaining_loss_ratio of
                          None \<Rightarrow> xent_loss
                        | Some r \<Rightarrow> if r \<noteq> 0 then tf_add xent_loss (tf_mul (Fin r) chaining_loss)
                                    else xent_loss)
      in [Some xent_loss1, None, None])"

subsection \<open>Attention variants\<close>

text \<open>
  The encoder configuration, with the attributes the modelled functions read. A list
  attribute that is \<open>None\<close> in the configuration is the empty list (both count as false);
  \<open>maxout_stride\<close> and \<open>attn_temperature\<close> are numbers or \<open>None\<close>.
\<close>

record encoder =
  attention_type :: string
  attn_temperature :: "real option"
  attn_window_size :: int
  binary :: bool
  convolutions :: "nat list"
  maxout_stride :: "int option"
  bidir :: bool
  time_pooling :: "int list"
  final_state :: string
  layers :: int

text \<open>
  The keyword arguments that \<^verbatim>\<open>multi_attention\<close> hands to the attention function, as far
  as the weights depend on them. The hidden states and the query state enter the weights
  through their shapes and through learned layers only:
  \<^item> \<open>batch_size\<close> is \<^verbatim>\<open>tf.shape(state)[0]\<close> and \<open>attn_length\<close> is
    \<^verbatim>\<open>tf.shape(hidden_states)[1]\<close>;
  \<^item> \<open>energy\<close> is the tensor of shape (batch, time) that \<^verbatim>\<open>compute_energy\<close> (or
    \<^verbatim>\<open>compute_energy_with_filter\<close>) returns for these hidden states and this state; its
    dense layers and variables belong to the variable store;
  \<^item> \<open>pos_logit\<close> is \<^verbatim>\<open>tf.matmul(tf.nn.tanh(tf.matmul(state, wp)), vp)\<close>, one number per
    batch entry, the learned position before the sigmoid;
  \<^item> \<open>encoder_input_length\<close> is the integer tensor of valid lengths, \<open>pos\<close> the aligned
    position when the caller supplies one.
  Each function below returns the weights, the second component of the source's result;
  the context vector is not modelled.
\<close>

record attention_args =
  batch_size :: nat
  attn_length :: nat
  energy :: "real list list"
  encoder_input_length :: "int list"
  pos :: "real list option"
  pos_logit :: "real list"

text \<open>\<^verbatim>\<open>tf.sequence_mask(lengths, maxlen)\<close>: position \<open>t\<close> of a row is true iff \<open>t\<close> is below
  the row's length.\<close>

definition sequence_mask :: "int list \<Rightarrow> nat \<Rightarrow> bool list list" where
  "sequence_mask lengths maxlen = map (\<lambda>l. map (\<lambda>t. int t < l) [0 ..< maxlen]) lengths"

text \<open>\<^verbatim>\<open>tf.reduce_max\<close> of a row. An empty row has no entry to subtract it from.\<close>

definition reduce_max :: "real list \<Rightarrow> real" where
  "reduce_max row = (if row = [] then 0 else Max (set row))"

text \<open>\<^verbatim>\<open>e -= tf.reduce_max(e, axis=1, keep_dims=True)\<close>\<close>

definition subtract_row_max :: "real list list \<Rightarrow> real list list" where
  "subtract_row_max e = map (\<lambda>row. map (\<lambda>x. x - reduce_max row) row) e"

text \<open>
  \<^verbatim>\<open>
  e -= tf.reduce_max(e, axis=1, keep_dims=True)
  mask = tf.sequence_mask(encoder_input_length, maxlen=tf.shape(hidden_states)[1],
                          dtype=tf.float32)
  T = encoder.attn_temperature or 1.0
  exp = tf.exp(T * e) * mask
  weights = exp / tf.reduce_sum(exp, axis=-1, keep_dims=True)
  \<close>
  \<^verbatim>\<open>x or 1.0\<close> is 1.0 when \<open>x\<close> is \<open>None\<close> or 0.
\<close>

definition temperature :: "encoder \<Rightarrow> real" where
  "temperature enc = (case attn_temperature enc of None \<Rightarrow> 1 | Some t \<Rightarrow> if t = 0 then 1 else t)"

definition global_attention :: "encoder \<Rightarrow> attention_args \<Rightarrow> tf_float list list" where
  "global_attention enc a =
     (let e = subtract_row_max (energy a);
          mask = map (map to_float) (sequence_mask (encoder_input_length a) (attn_length a));
          T = temperature enc;
          ex = map2 (map2 (\<lambda>x m. tf_mul (float32_exp (T * x)) (Fin m))) e mask
      in map (\<lambda>row. map (\<lambda>x. tf_divide x (tf_sum row)) row) ex)"


text \<open>
  \<^verbatim>\<open>
  lengths = tf.to_float(tf.expand_dims(encoder_input_length, axis=1))
  mask = tf.sequence_mask(encoder_input_length, maxlen=tf.shape(hidden_states)[1])
  weights = tf.to_float(mask) / lengths
  \<close>
\<close>

definition average_attention :: "encoder \<Rightarrow> attention_args \<Rightarrow> tf_float list list" where
  "average_attention enc a =
     (let lengths = map real_of_int (encoder_input_length a);
          mask = sequence_mask (encoder_input_length a) (attn_length a)
      in map2 (\<lambda>row l. map (\<lambda>m. tf_divide (Fin (to_float m)) (Fin l)) row) mask lengths)"



text \<open>
  \<^verbatim>\<open>tf.clip_by_value(t, lo, hi)\<close> is \<^verbatim>\<open>maximum(minimum(t, hi), lo)\<close>. Every comparison
  with NaN is false, and minimum and maximum then return their first operand: a NaN stays
  a NaN.
\<close>

definition clip_by_value :: "real \<Rightarrow> real \<Rightarrow> real \<Rightarrow> real" where
  "clip_by_value t lo hi = max (min t hi) lo"

fun tf_clip_by_value :: "tf_float \<Rightarrow> real \<Rightarrow> real \<Rightarrow> tf_float" where
  "tf_clip_by_value (Fin t) lo hi = Fin (clip_by_value t lo hi)"
| "tf_clip_by_value PInf lo hi = Fin (max hi lo)"
| "tf_clip_by_value NInf lo hi = Fin lo"
| "tf_clip_by_value NaN lo hi = NaN"

text \<open>
  \<^verbatim>\<open>
  def softmax(logits, dim=-1, mask=None):
      e = tf.exp(logits)
      if mask is not None:
          e *= mask
      return e / tf.clip_by_value(tf.reduce_sum(e, axis=dim, keep_dims=True),
                                  10e-37, 10e+37)
  \<close>
  The literals \<^verbatim>\<open>10e-37\<close> and \<^verbatim>\<open>10e+37\<close> are \<open>1 / 10 ^ 36\<close> and \<open>10 ^ 38\<close>.
\<close>

definition softmax :: "real list list \<Rightarrow> real list list option \<Rightarrow> tf_float list list" where
  "softmax logits msk =
     (let e = map (map float32_exp) logits;
          e1 = (case msk of None \<Rightarrow> e
                | Some m \<Rightarrow> map2 (map2 (\<lambda>x y. tf_mul x (Fin y))) e m)
      in map (\<lambda>row. map (\<lambda>x. tf_divide x
                (tf_clip_by_value (tf_sum row) (1 / 10 ^ 36) (10 ^ 38))) row) e1)"







subsection \<open>Configurations that stop the construction\<close>

datatype error = NotImplementedError | AssertionError | IndexError

text \<open>The Python slice \<^verbatim>\<open>xs[:n]\<close>; a negative \<open>n\<close> counts from the end.\<close>

definition py_slice_to :: "int \<Rightarrow> 'a list \<Rightarrow> 'a list" where
  "py_slice_to n xs = (if 0 \<le> n then take (nat n) xs else take (length xs - nat (- n)) xs)"

text \<open>
  One turn of the loop over the encoders in \<^verbatim>\<open>multi_encoder\<close>, as far as it raises and
  as far as it computes the new valid lengths of the encoder (an integer tensor of shape
  (batch)); the layers it builds in between belong to the learned network:
  \<^verbatim>\<open>
  if encoder.convolutions:
      if encoder.binary:
          raise NotImplementedError
      ...
  if encoder.maxout_stride:
      if encoder.binary:
          raise NotImplementedError
      stride = encoder.maxout_stride
      ...
      encoder_input_length_ = tf.to_int32(tf.ceil(encoder_input_length_ / stride))
  ...
  if encoder.bidir:
      ...
  else:
      if encoder.time_pooling or encoder.final_state == 'concat_last':
          raise NotImplementedError
      ...
  if encoder.time_pooling:
      for stride in encoder.time_pooling[:encoder.layers - 1]:
          encoder_input_length_ = (encoder_input_length_ + stride - 1) // stride
  \<close>
  Strides are positive numbers.
\<close>

definition encoder_turn :: "encoder \<Rightarrow> int list \<Rightarrow> error + int list" where
  "encoder_turn enc encoder_input_length0 =
     (if convolutions enc \<noteq> [] \<and> binary enc then Inl NotImplementedError
      else
        let stride_set = (case maxout_stride enc of None \<Rightarrow> False | Some k \<Rightarrow> k \<noteq> 0)
        in if stride_set \<and> binary enc then Inl NotImplementedError
           else
             let length1 = (case maxout_stride enc of
                              None \<Rightarrow> encoder_input_length0
                            | Some k \<Rightarrow> if k \<noteq> 0
                                then map (\<lambda>l. \<lceil>real_of_int l / real_of_int k\<rceil>) encoder_input_length0
                                else encoder_input_length0)
             in if \<not> bidir enc \<and> (time_pooling enc \<noteq> [] \<or> final_state enc = ''concat_last'')
                then Inl NotImplementedError
                else Inr (if time_pooling enc \<noteq> []
                          then fold (\<lambda>stride ls. map (\<lambda>l. (l + stride - 1) div stride) ls)
                                 (py_slice_to (layers enc - 1) (time_pooling enc)) length1
                          else length1))"

text \<open>
  \<^verbatim>\<open>multi_encoder(encoder_inputs, encoders, encoder_input_length)\<close>: the loop
  \<^verbatim>\<open>for i, encoder in enumerate(encoders)\<close>, which reads \<^verbatim>\<open>encoder_inputs[i]\<close> and
  \<^verbatim>\<open>encoder_input_length[i]\<close> and appends the new lengths of each encoder. The result is
  \<^verbatim>\<open>new_encoder_input_length\<close>, the third component of the source's result; an exception
  leaves no result at all.
\<close>

fun multi_encoder_loop ::
  "nat \<Rightarrow> encoder list \<Rightarrow> 'x list \<Rightarrow> int list list \<Rightarrow> error + int list list" where
  "multi_encoder_loop i [] encoder_inputs lens = Inr []"
| "multi_encoder_loop i (enc # encs) encoder_inputs lens =
     (if i \<ge> length encoder_inputs \<or> i \<ge> length lens then Inl IndexError
      else case encoder_turn enc (lens ! i) of
             Inl err \<Rightarrow> Inl err
           | Inr new_length \<Rightarrow>
               (case multi_encoder_loop (Suc i) encs encoder_inputs lens of
                  Inl err \<Rightarrow> Inl err
                | Inr new_lengths \<Rightarrow> Inr (new_length # new_lengths)))"

definition multi_encoder :: "'x list \<Rightarrow> encoder list \<Rightarrow> int list list \<Rightarrow> error + int list list" where
  "multi_encoder encoder_inputs encoders lens = multi_encoder_loop 0 encoders encoder_inputs lens"

text \<open>
  \<^verbatim>\<open>attention_decoder\<close> starts with
  \<^verbatim>\<open>
  assert not decoder.pred_maxout_layer or decoder.cell_size % 2 == 0, \
      'cell size must be a multiple of 2'
  \<close>
  and builds the decoder's graph after it: \<open>build\<close> stands for everything that follows the
  assertion.
\<close>

definition attention_decoder :: "(decoder \<Rightarrow> 'g) \<Rightarrow> decoder \<Rightarrow> error + 'g" where
  "attention_decoder build dec =
     (if \<not> (\<not> pred_maxout_layer dec \<or> cell_size dec mod 2 = 0) then Inl AssertionError
      else Inr (build dec))"

section \<open>Properties of the mask\<close>

lemma upt_Suc_shift: "[s ..< s + Suc n] = s # [Suc s ..< Suc s + n]"
proof -
  have "s < s + Suc n" by simp
  from upt_conv_Cons [OF this] show ?thesis by simp
qed

lemma butlast_replicate_eq: "butlast (replicate n x) = replicate (n - 1) x"
  by (simp add: butlast_conv_take min_def)

lemma weights_step:
  "map2 F (cumsum_from a (map g (x # xs))) [s ..< s + length (x # xs)]
   = F (a + g x) s # map2 F (cumsum_from (a + g x) (map g xs)) [Suc s ..< Suc s + length xs]"
proof -
  have "[s ..< s + length (x # xs)] = s # [Suc s ..< Suc s + length xs]"
    using upt_Suc_shift [of s "length xs"] by simp
  then show ?thesis by (simp del: upt_Suc)
qed

lemma length_cumsum_from: "length (cumsum_from a xs) = length xs"
  by (induction xs arbitrary: a) simp_all

text \<open>Once the running sum is behind the position counter it never catches up.\<close>

lemma weights_behind:
  "a < real s - 1 \<Longrightarrow>
   map2 (\<lambda>c r. to_float (c = real r))
     (cumsum_from a (map (\<lambda>x. to_float (x \<noteq> e)) xs)) [s ..< s + length xs]
   = replicate (length xs) 0"
proof (induction xs arbitrary: a s)
  case Nil
  then show ?case by simp
next
  case (Cons x xs)
  have step: "a + to_float (x \<noteq> e) < real (Suc s) - 1"
    using Cons.prems by (simp add: to_float_def)
  have ne: "to_float (a + to_float (x \<noteq> e) = real s) = 0"
    using Cons.prems by (simp add: to_float_def)
  show ?case
    unfolding weights_step Cons.IH [OF step] ne by simp
qed

text \<open>While the running sum keeps pace, the mask is 1 up to the first end-of-sequence
  token and 0 from there on.\<close>

lemma weights_on_track:
  "a = real s - 1 \<Longrightarrow>
   map2 (\<lambda>c r. to_float (c = real r))
     (cumsum_from a (map (\<lambda>x. to_float (x \<noteq> e)) xs)) [s ..< s + length xs]
   = replicate (first_eos xs e) 1 @ replicate (length xs - first_eos xs e) 0"
proof (induction xs arbitrary: a s)
  case Nil
  then show ?case by (simp add: first_eos_def)
next
  case (Cons x xs)
  show ?case
  proof (cases "x = e")
    case True
    have behind: "a + to_float (x \<noteq> e) < real (Suc s) - 1"
      using Cons.prems True by (simp add: to_float_def)
    have ne: "to_float (a + to_float (x \<noteq> e) = real s) = 0"
      using Cons.prems True by (simp add: to_float_def)
    have k: "first_eos (x # xs) e = 0"
      using True by (simp add: first_eos_def)
    show ?thesis
      unfolding weights_step weights_behind [OF behind] ne k by simp
  next
    case False
    have track: "a + to_float (x \<noteq> e) = real (Suc s) - 1"
      using Cons.prems False by (simp add: to_float_def)
    have eq: "to_float (a + to_float (x \<noteq> e) = real s) = 1"
      using Cons.prems False by (simp add: to_float_def)
    have k: "first_eos (x # xs) e = Suc (first_eos xs e)"
      using False by (simp add: first_eos_def)
    show ?thesis
      unfolding weights_step Cons.IH [OF track] eq k by simp
  qed
qed

lemma raw_weights_row:
  "get_weights_row row e False
   = replicate (first_eos row e) 1 @ replicate (length row - first_eos row e) 0"
proof -
  have "(0::real) = real 1 - 1" by simp
  from weights_on_track [OF this, of e row] show ?thesis
    by (simp add: get_weights_row_def cumsum_def del: upt_Suc)
qed

lemma first_eos_le: "first_eos row e \<le> length row"
  by (simp add: first_eos_def length_takeWhile_le)

lemma first_eos_less_iff: "first_eos row e < length row \<longleftrightarrow> e \<in> set row"
  by (induction row) (auto simp: first_eos_def)

lemma shifted_weights_row:
  assumes "row \<noteq> []"
  shows "get_weights_row row e True
   = replicate (min (Suc (first_eos row e)) (length row)) 1
     @ replicate (length row - Suc (first_eos row e)) 0"
proof -
  let ?k = "first_eos row e" and ?n = "length row"
  have shift: "get_weights_row row e True = 1 # butlast (get_weights_row row e False)"
    by (simp add: get_weights_row_def Let_def)
  show ?thesis
  proof (cases "?k < ?n")
    case True
    then have "replicate (?n - ?k) (0::real) \<noteq> []" by simp
    then have "butlast (replicate ?k (1::real) @ replicate (?n - ?k) 0)
               = replicate ?k 1 @ replicate (?n - ?k - 1) 0"
      by (simp add: butlast_append butlast_replicate_eq)
    with True show ?thesis
      by (simp add: shift raw_weights_row min_def)
  next
    case False
    then have k: "?k = ?n" using first_eos_le [of row e] by simp
    from assms obtain m where m: "?n = Suc m" by (cases row) auto
    have raw: "get_weights_row row e False = replicate (Suc m) 1"
      using raw_weights_row [of row e] by (simp only: k m diff_self_eq_0 replicate_0 append_Nil2)
    have lhs: "get_weights_row row e True = replicate (Suc m) 1"
      unfolding shift raw butlast_replicate_eq by simp
    have rhs: "replicate (min (Suc ?k) ?n) (1::real) @ replicate (?n - Suc ?k) 0
               = replicate (Suc m) 1"
      unfolding k m by simp
    show ?thesis
      unfolding lhs rhs ..
  qed
qed

lemma first_eos_eq:
  assumes "k < length row" and "row ! k = e" and "\<forall>j<k. row ! j \<noteq> e"
  shows "first_eos row e = k"
proof -
  have "takeWhile (\<lambda>x. x \<noteq> e) row = take k row"
    by (rule takeWhile_eq_take_P_nth) (use assms in auto)
  then show ?thesis using assms by (simp add: first_eos_def)
qed

lemma prefix_mask_mono:
  "xs = replicate k (1::real) @ replicate m 0 \<Longrightarrow> Suc t < length xs \<Longrightarrow> xs ! Suc t = 1 \<Longrightarrow> xs ! t = 1"
  by (auto simp: nth_append split: if_splits)

lemma get_weights_nth:
  "b < length sequence \<Longrightarrow> get_weights sequence e inc ! b = get_weights_row (sequence ! b) e inc"
  by (simp add: get_weights_def)

lemma get_weights_row_prefix:
  "\<exists>k m. get_weights_row row e inc = replicate k 1 @ replicate m 0"
proof (cases inc)
  case False
  then have "get_weights_row row e inc
      = replicate (first_eos row e) 1 @ replicate (length row - first_eos row e) 0"
    by (simp add: raw_weights_row)
  then show ?thesis by blast
next
  case True
  show ?thesis
  proof (cases "row = []")
    case True
    with \<open>inc\<close> have "get_weights_row row e inc = replicate 1 1 @ replicate 0 0"
      by (simp add: get_weights_row_def cumsum_def)
    then show ?thesis by blast
  next
    case False
    with \<open>inc\<close> have "get_weights_row row e inc
        = replicate (min (Suc (first_eos row e)) (length row)) 1
          @ replicate (length row - Suc (first_eos row e)) 0"
      by (simp add: shifted_weights_row)
    then show ?thesis by blast
  qed
qed

subsection \<open>Claims about \<^verbatim>\<open>get_weights\<close>\<close>

text \<open>
  Claim C2. For a sequence tensor of time length \<open>T\<close> and \<open>1 \<le> L \<le> T\<close>: if the token of
  a row at 0-based position \<open>L - 1\<close> is the end-of-sequence id and no earlier token of that
  row is, then the row of the mask that \<^verbatim>\<open>get_weights\<close> returns with
  \<^verbatim>\<open>include_first_eos=True\<close> is exactly \<open>L\<close> ones followed by \<open>T - L\<close> zeros.
\<close>

theorem get_weights_eos_at_L:
  assumes "b < length sequence"
    and "1 \<le> L" and "L \<le> length (sequence ! b)"
    and "sequence ! b ! (L - 1) = eos_id"
    and "\<forall>j < L - 1. sequence ! b ! j \<noteq> eos_id"
  shows "get_weights sequence eos_id True ! b
         = replicate L 1 @ replicate (length (sequence ! b) - L) 0"
proof -
  let ?row = "sequence ! b"
  have k: "first_eos ?row eos_id = L - 1"
    by (rule first_eos_eq) (use assms in auto)
  have ne: "?row \<noteq> []" using assms by auto
  show ?thesis
    using assms(1-3) shifted_weights_row [OF ne, of eos_id]
    by (simp add: get_weights_nth k min_def)
qed

theorem get_weights_eos_at_L_witness:
  "(0::nat) < length [[5, 1, 7 :: int]] \<and> (1::nat) \<le> 2 \<and> 2 \<le> length ([[5, 1, 7 :: int]] ! 0)
   \<and> [[5, 1, 7 :: int]] ! 0 ! (2 - 1) = 1 \<and> [[5, 1, 7 :: int]] ! 0 ! 0 \<noteq> 1
   \<and> get_weights [[5, 1, 7]] 1 True ! 0 = [1, 1, 0]"
  using get_weights_eos_at_L [of 0 "[[5, 1, 7]]" 2 1]
  by (simp add: numeral_2_eq_2)

text \<open>
  Claim C9. For every sequence tensor and both values of \<^verbatim>\<open>include_first_eos\<close>, every row
  of the mask is a block of ones followed only by zeros: whenever the mask is 1 at position
  \<open>t + 1\<close> it is 1 at position \<open>t\<close>.
\<close>

theorem get_weights_prefix_of_ones:
  assumes "b < length sequence"
  shows "(\<exists>k m. get_weights sequence eos_id include_first_eos ! b = replicate k 1 @ replicate m 0)
       \<and> (\<forall>t. Suc t < length (get_weights sequence eos_id include_first_eos ! b)
              \<longrightarrow> get_weights sequence eos_id include_first_eos ! b ! Suc t = 1
              \<longrightarrow> get_weights sequence eos_id include_first_eos ! b ! t = 1)"
proof -
  obtain k m where km: "get_weights_row (sequence ! b) eos_id include_first_eos
      = replicate k 1 @ replicate m 0"
    using get_weights_row_prefix by blast
  show ?thesis
    using assms prefix_mask_mono [OF km] km by (auto simp: get_weights_nth)
qed

theorem get_weights_prefix_of_ones_witness:
  "(0::nat) < length [[5, 1, 7 :: int], [1, 1, 1]]
   \<and> get_weights [[5, 1, 7], [1, 1, 1]] 1 True ! 0 = [1, 1, 0]
   \<and> Suc 0 < length (get_weights [[5, 1, 7], [1, 1, 1]] 1 True ! 0)
   \<and> get_weights [[5, 1, 7], [1, 1, 1]] 1 True ! 0 ! Suc 0 = 1
   \<and> get_weights [[5, 1, 7], [1, 1, 1]] 1 True ! 0 ! 0 = 1"
  using get_weights_prefix_of_ones [of 0 "[[5, 1, 7], [1, 1, 1]]" 1 True]
  by (simp add: get_weights_def get_weights_row_def cumsum_def to_float_def upt_conv_Cons)

text \<open>
  Claim C10. The samples of \<^verbatim>\<open>encoder_decoder\<close> come out of \<^verbatim>\<open>attention_decoder\<close>, which
  reads its first input with \<^verbatim>\<open>inputs.read(0)\<close> and stacks one sample per time step: a
  row of samples has at least one time step. On such a row the mask of the baseline loss
  (\<^verbatim>\<open>include_first_eos=False\<close>) and the mask of the reinforcement loss
  (\<^verbatim>\<open>include_first_eos=True\<close>) have the width of the row, and the first is pointwise below
  the second; a row that holds an end-of-sequence token gives masks that differ exactly at
  the position of its first end-of-sequence token (0 in the baseline mask, 1 in the
  reinforcement mask), and a row that holds none gives equal masks.
\<close>

theorem baseline_mask_le_reinforce_mask:
  assumes "b < length samples" and "samples ! b \<noteq> []"
  shows "length (get_weights samples eos_id False ! b) = length (samples ! b)
       \<and> length (get_weights samples eos_id True ! b) = length (samples ! b)
       \<and> (\<forall>t < length (samples ! b).
             get_weights samples eos_id False ! b ! t \<le> get_weights samples eos_id True ! b ! t)
       \<and> (eos_id \<in> set (samples ! b) \<longrightarrow>
             get_weights samples eos_id False ! b ! first_eos (samples ! b) eos_id = 0
           \<and> get_weights samples eos_id True ! b ! first_eos (samples ! b) eos_id = 1
           \<and> (\<forall>t < length (samples ! b).
                 get_weights samples eos_id False ! b ! t \<noteq> get_weights samples eos_id True ! b ! t
                 \<longleftrightarrow> t = first_eos (samples ! b) eos_id))
       \<and> (eos_id \<notin> set (samples ! b) \<longrightarrow>
             get_weights samples eos_id False ! b = get_weights samples eos_id True ! b)"
proof -
  let ?row = "samples ! b"
  let ?k = "first_eos ?row eos_id" and ?n = "length ?row"
  let ?base = "get_weights samples eos_id False ! b"
  let ?reinf = "get_weights samples eos_id True ! b"
  have base: "?base = replicate ?k 1 @ replicate (?n - ?k) 0"
    using assms(1) by (simp add: get_weights_nth raw_weights_row)
  have reinf: "?reinf = replicate (min (Suc ?k) ?n) 1 @ replicate (?n - Suc ?k) 0"
    using assms by (simp add: get_weights_nth shifted_weights_row)
  have kn: "?k \<le> ?n" by (rule first_eos_le)
  have len: "length ?base = ?n" "length ?reinf = ?n"
    using kn assms(2) by (auto simp: base reinf min_def)
  have le: "\<forall>t < ?n. ?base ! t \<le> ?reinf ! t"
    unfolding base reinf by (auto simp: nth_append simp del: replicate_Suc)
  have eos: "?base ! ?k = 0 \<and> ?reinf ! ?k = 1 \<and> (\<forall>t < ?n. ?base ! t \<noteq> ?reinf ! t \<longleftrightarrow> t = ?k)"
    if "eos_id \<in> set ?row"
  proof -
    from that have "?k < ?n" by (simp add: first_eos_less_iff)
    then show ?thesis
      unfolding base reinf by (auto simp: nth_append min_def simp del: replicate_Suc)
  qed
  have noeos: "?base = ?reinf" if "eos_id \<notin> set ?row"
  proof -
    from that kn have "?k = ?n" using first_eos_less_iff [of ?row eos_id] by simp
    then show ?thesis
      unfolding base reinf by simp
  qed
  show ?thesis
    using len le eos noeos by blast
qed

theorem baseline_mask_le_reinforce_mask_witness:
  "(0::nat) < length [[5, 1, 7 :: int]] \<and> [[5, 1, 7 :: int]] ! 0 \<noteq> []
   \<and> 1 \<in> set ([[5, 1, 7 :: int]] ! 0)
   \<and> first_eos ([[5, 1, 7]] ! 0) 1 = 1
   \<and> get_weights [[5, 1, 7]] 1 False ! 0 = [1, 0, 0]
   \<and> get_weights [[5, 1, 7]] 1 True ! 0 = [1, 1, 0]
   \<and> get_weights [[5, 1, 7]] 1 False ! 0 ! 1 \<noteq> get_weights [[5, 1, 7]] 1 True ! 0 ! 1"
  using baseline_mask_le_reinforce_mask [of 0 "[[5, 1, 7]]" 1]
  by (simp add: get_weights_def get_weights_row_def cumsum_def to_float_def upt_conv_Cons
      first_eos_def)


section \<open>The alignment position\<close>






section \<open>The next input token\<close>

text \<open>
  Claim C4. At a decoder time step, when the step is not the last one and the number drawn
  is at least \<^verbatim>\<open>feed_previous\<close>, the next input token is the ground-truth token at
  \<open>time + 1\<close>; otherwise it is a multinomial sample from the softmax of the logits when
  \<^verbatim>\<open>feed_argmax\<close> is false and the argmax of the logits when it is true. In every case a
  symbol is chosen, and no gradient flows through it.
\<close>

theorem predicted_symbol_choice:
  "(int time < int (length inputs) - 1 \<and> feed_previous \<le> u \<longrightarrow>
      predicted_symbol multinomial argmax time inputs u feed_previous feed_argmax output
        = Some (Node (inputs ! (time + 1)) False))
   \<and> (\<not> (int time < int (length inputs) - 1 \<and> feed_previous \<le> u) \<and> \<not> feed_argmax \<longrightarrow>
      predicted_symbol multinomial argmax time inputs u feed_previous feed_argmax output
        = Some (Node (multinomial (map (\<lambda>row. map ln (nn_softmax row)) output)) False))
   \<and> (\<not> (int time < int (length inputs) - 1 \<and> feed_previous \<le> u) \<and> feed_argmax \<longrightarrow>
      predicted_symbol multinomial argmax time inputs u feed_previous feed_argmax output
        = Some (Node (argmax output) False))
   \<and> (\<exists>n. predicted_symbol multinomial argmax time inputs u feed_previous feed_argmax output = Some n
          \<and> \<not> passes_gradient n)"
  by (auto simp: predicted_symbol_def tensor_array_read_def stop_gradient_def)

theorem predicted_symbol_choice_witness:
  "int 0 < int (length [[1 :: int], [5]]) - 1 \<and> (0::real) \<le> 1 / 2
   \<and> predicted_symbol (\<lambda>lg. [2]) (\<lambda>lg. [0]) 0 [[1], [5]] (1 / 2) 0 True [[0, 1]]
       = Some (Node [5] False)
   \<and> \<not> (int 1 < int (length [[1 :: int], [5]]) - 1 \<and> (0::real) \<le> 1 / 2)
   \<and> predicted_symbol (\<lambda>lg. [2]) (\<lambda>lg. [0]) 1 [[1], [5]] (1 / 2) 0 False [[0, 1]]
       = Some (Node [2] False)
   \<and> \<not> (int 0 < int (length [[1 :: int], [5]]) - 1 \<and> (1::real) \<le> 1 / 2)
   \<and> predicted_symbol (\<lambda>lg. [2]) (\<lambda>lg. [0]) 0 [[1], [5]] (1 / 2) 1 True [[0, 1]]
       = Some (Node [0] False)"
  using predicted_symbol_choice [of 0 "[[1], [5]]" 0 "1 / 2" "\<lambda>lg. [2]" "\<lambda>lg. [0]" True "[[0, 1]]"]
    predicted_symbol_choice [of 1 "[[1], [5]]" 0 "1 / 2" "\<lambda>lg. [2]" "\<lambda>lg. [0]" False "[[0, 1]]"]
    predicted_symbol_choice [of 0 "[[1], [5]]" 1 "1 / 2" "\<lambda>lg. [2]" "\<lambda>lg. [0]" True "[[0, 1]]"]
  by simp


section \<open>The losses of the chained pipeline\<close>

text \<open>
  Claim C7. \<^verbatim>\<open>chained_encoder_decoder\<close> returns three losses; the reinforcement and the
  baseline entry are null, and whenever \<^verbatim>\<open>chaining_loss_ratio\<close> is a number other than 0
  the first entry is the cross-entropy loss of the second stage plus
  \<^verbatim>\<open>chaining_loss_ratio\<close> times the chaining loss of the first stage.
\<close>

theorem chained_encoder_decoder_losses:
  "length (chained_encoder_decoder xent eos_id chaining_loss_ratio encoder_inputs0 targets
             outputs1 outputs2) = 3
   \<and> chained_encoder_decoder xent eos_id chaining_loss_ratio encoder_inputs0 targets
        outputs1 outputs2 ! 1 = None
   \<and> chained_encoder_decoder xent eos_id chaining_loss_ratio encoder_inputs0 targets
        outputs1 outputs2 ! 2 = None
   \<and> (\<forall>r. chaining_loss_ratio = Some r \<and> r \<noteq> 0 \<longrightarrow>
        chained_encoder_decoder xent eos_id chaining_loss_ratio encoder_inputs0 targets
          outputs1 outputs2 ! 0
        = Some (tf_add
            (sequence_loss xent outputs2 (map tl targets)
               (get_weights (map tl targets) eos_id True) False True None)
            (tf_mul (Fin r)
               (sequence_loss xent outputs1 encoder_inputs0
                  (get_weights encoder_inputs0 eos_id True) False True None))))"
  by (simp add: chained_encoder_decoder_def Let_def split: option.split)

theorem chained_encoder_decoder_losses_witness:
  "Some (1 / 2 :: real) = Some (1 / 2) \<and> (1 / 2 :: real) \<noteq> 0
   \<and> chained_encoder_decoder (\<lambda>lg t. lg ! nat t) 1 (Some (1 / 2)) [[5, 1]] [[0, 7, 1]]
        [[[1, 2, 3, 4, 5, 6], [3, 4]]] [[[1, 2, 3, 4, 5, 6, 7, 8], [3, 5]]]
      = [Some (Fin 18), None, None]"
  using chained_encoder_decoder_losses [of "\<lambda>lg t. lg ! nat t" 1 "Some (1 / 2)" "[[5, 1]]" "[[0, 7, 1]]"
        "[[[1, 2, 3, 4, 5, 6], [3, 4]]]" "[[[1, 2, 3, 4, 5, 6, 7, 8], [3, 5]]]"]
  by (simp add: chained_encoder_decoder_def sequence_loss_def get_weights_def get_weights_row_def
      cumsum_def to_float_def tf_sum_def upt_conv_Cons)


section \<open>Unsupported configurations\<close>

lemma encoder_turn_error: "encoder_turn enc ls = Inl err \<Longrightarrow> err = NotImplementedError"
  by (auto simp: encoder_turn_def Let_def split: if_splits)

lemma encoder_turn_unsupported:
  "(convolutions enc \<noteq> [] \<and> binary enc)
   \<or> (\<not> bidir enc \<and> (time_pooling enc \<noteq> [] \<or> final_state enc = ''concat_last''))
   \<Longrightarrow> encoder_turn enc ls = Inl NotImplementedError"
  by (auto simp: encoder_turn_def Let_def)

lemma multi_encoder_loop_unsupported:
  assumes "enc \<in> set encoders"
    and "(convolutions enc \<noteq> [] \<and> binary enc)
         \<or> (\<not> bidir enc \<and> (time_pooling enc \<noteq> [] \<or> final_state enc = ''concat_last''))"
    and "i + length encoders \<le> length encoder_inputs"
    and "i + length encoders \<le> length lens"
  shows "multi_encoder_loop i encoders encoder_inputs lens = Inl NotImplementedError"
  using assms
proof (induction encoders arbitrary: i)
  case Nil
  then show ?case by simp
next
  case (Cons e es)
  have inrange: "\<not> (i \<ge> length encoder_inputs \<or> i \<ge> length lens)"
    using Cons.prems(3,4) by simp
  show ?case
  proof (cases "encoder_turn e (lens ! i)")
    case (Inl err)
    then show ?thesis using inrange encoder_turn_error [OF Inl] by simp
  next
    case (Inr new_length)
    then have "e \<noteq> enc"
      using encoder_turn_unsupported [OF Cons.prems(2), of "lens ! i"] by auto
    then have "enc \<in> set es" using Cons.prems(1) by simp
    then have "multi_encoder_loop (Suc i) es encoder_inputs lens = Inl NotImplementedError"
      using Cons.IH [of "Suc i"] Cons.prems(2,3,4) by simp
    then show ?thesis using inrange Inr by simp
  qed
qed

text \<open>
  Claim C8. Unsupported combinations stop the construction with an exception, so that no
  graph is returned: an encoder with convolutions on binary (feature-valued) input, or a
  unidirectional encoder with time pooling or with the final state \<^verbatim>\<open>concat_last\<close>,
  makes \<^verbatim>\<open>multi_encoder\<close> raise \<^verbatim>\<open>NotImplementedError\<close>; a maxout output layer with an odd
  cell size fails the assertion of \<^verbatim>\<open>attention_decoder\<close>.
\<close>

theorem unsupported_configurations_fail:
  "(enc \<in> set encoders \<and> length encoders \<le> length encoder_inputs
      \<and> length encoders \<le> length lens
      \<and> ((convolutions enc \<noteq> [] \<and> binary enc)
          \<or> (\<not> bidir enc \<and> (time_pooling enc \<noteq> [] \<or> final_state enc = ''concat_last'')))
     \<longrightarrow> multi_encoder encoder_inputs encoders lens = Inl NotImplementedError)
   \<and> (pred_maxout_layer dec \<and> cell_size dec mod 2 \<noteq> 0
     \<longrightarrow> attention_decoder build dec = Inl AssertionError)"
  using multi_encoder_loop_unsupported [of enc encoders 0 encoder_inputs lens]
  by (auto simp: multi_encoder_def attention_decoder_def)


theorem unsupported_configurations_fail_witness:
  "multi_encoder [''src'', ''mt'']
     [\<lparr>attention_type = ''global'', attn_temperature = None, attn_window_size = 0,
        binary = False, convolutions = [], maxout_stride = Some 2, bidir = True,
        time_pooling = [2], final_state = ''last'', layers = 2\<rparr>,
      \<lparr>attention_type = ''global'', attn_temperature = None, attn_window_size = 0,
        binary = True, convolutions = [3], maxout_stride = None, bidir = True,
        time_pooling = [], final_state = ''last'', layers = 1\<rparr>]
     [[5, 8], [4, 4]] = Inl NotImplementedError
   \<and> multi_encoder [''src'']
     [\<lparr>attention_type = ''global'', attn_temperature = None, attn_window_size = 0,
        binary = False, convolutions = [], maxout_stride = None, bidir = False,
        time_pooling = [2], final_state = ''last'', layers = 2\<rparr>]
     [[5, 8]] = Inl NotImplementedError
   \<and> multi_encoder [''src'']
     [\<lparr>attention_type = ''global'', attn_temperature = None, attn_window_size = 0,
        binary = False, convolutions = [], maxout_stride = Some 2, bidir = True,
        time_pooling = [2], final_state = ''last'', layers = 2\<rparr>]
     [[5, 8]] = Inr [[2, 2]]
   \<and> attention_decoder (\<lambda>d. cell_size d)
        \<lparr>pred_edits = False, pred_maxout_layer = True, cell_size = 7\<rparr> = Inl AssertionError
   \<and> attention_decoder (\<lambda>d. cell_size d)
        \<lparr>pred_edits = False, pred_maxout_layer = True, cell_size = 8\<rparr> = Inr 8"
  using unsupported_configurations_fail
      [of "\<lparr>attention_type = ''global'', attn_temperature = None, attn_window_size = 0,
        binary = True, convolutions = [3], maxout_stride = None, bidir = True,
        time_pooling = [], final_state = ''last'', layers = 1\<rparr>"
       "[\<lparr>attention_type = ''global'', attn_temperature = None, attn_window_size = 0,
        binary = False, convolutions = [], maxout_stride = Some 2, bidir = True,
        time_pooling = [2], final_state = ''last'', layers = 2\<rparr>,
      \<lparr>attention_type = ''global'', attn_temperature = None, attn_window_size = 0,
        binary = True, convolutions = [3], maxout_stride = None, bidir = True,
        time_pooling = [], final_state = ''last'', layers = 1\<rparr>]"
       "[''src'', ''mt'']" "[[5, 8], [4, 4]]"
       "\<lparr>pred_edits = False, pred_maxout_layer = True, cell_size = 7\<rparr>" "\<lambda>d. cell_size d"]
  by (simp add: multi_encoder_def attention_decoder_def encoder_turn_def py_slice_to_def)


section \<open>Attention weights\<close>

subsection \<open>The range of float32 exponentials\<close>

lemma two_power_le_exp: "2 ^ n \<le> exp (real n)"
proof -
  have "(2::real) \<le> exp 1" using exp_ge_add_one_self [of "1::real"] by simp
  then have "(2::real) ^ n \<le> exp 1 ^ n" by (rule power_mono) simp
  also have "\<dots> = exp (real n)" using exp_of_nat_mult [of n "1::real"] by simp
  finally show ?thesis .
qed

lemma float32_exp_nonpositive:
  assumes "x \<le> 0"
  shows "\<not> float32_overflow x"
proof -
  have "exp x \<le> 1" using assms by simp
  moreover have "(1::real) < 2 ^ 128 - 2 ^ 103" by simp
  ultimately show ?thesis unfolding float32_overflow_def by linarith
qed

lemma float32_exp_0: "float32_exp 0 = Fin 1"
  by (simp add: float32_exp_def float32_overflow_def float32_underflow_def)

lemma float32_exp_200: "float32_exp 200 = PInf"
proof -
  have "(2::real) ^ 128 - 2 ^ 103 \<le> 2 ^ 200" by simp
  also have "\<dots> \<le> exp (real 200)" by (rule two_power_le_exp)
  finally show ?thesis by (simp add: float32_exp_def float32_overflow_def)
qed

lemma float32_exp_minus_200: "float32_exp (- 200) = Fin 0"
proof -
  have "(2::real) ^ 150 \<le> 2 ^ 200" by simp
  also have "\<dots> \<le> exp (real 200)" by (rule two_power_le_exp)
  finally have big: "(2::real) ^ 150 \<le> exp 200" by simp
  have pos: "(0::real) < 2 ^ 150" by simp
  have "exp (- 200 :: real) = 1 / exp 200" by (simp add: exp_minus inverse_eq_divide)
  also have "\<dots> \<le> 1 / 2 ^ 150" using big pos by (simp add: frac_le)
  finally have under: "float32_underflow (- 200)" by (simp add: float32_underflow_def)
  have "\<not> float32_overflow (- 200)" by (rule float32_exp_nonpositive) simp
  then show ?thesis using under by (simp add: float32_exp_def)
qed










subsection \<open>Global attention\<close>

lemma sequence_mask_nth:
  "b < length lengths \<Longrightarrow> sequence_mask lengths n ! b = map (\<lambda>t. int t < lengths ! b) [0 ..< n]"
  by (simp add: sequence_mask_def)




subsection \<open>Average, last-state and position-supervised local attention\<close>







subsection \<open>The clamped softmax and local attention with a learned position\<close>






subsection \<open>The attention dispatcher\<close>











subsection \<open>Rows that leave the range of float32\<close>

text \<open>
  Claim C1 says that for every row with a valid length between 1 and the number of time
  steps the weights of \<^verbatim>\<open>global_attention\<close> sum to 1 over the valid positions and are 0
  beyond. The source subtracts the maximum of the whole row, padded positions included,
  and masks only after exponentiating. On the row of energies 0 (valid) and 200 (padded)
  with valid length 1 the only valid exponential is \<open>exp (-200)\<close>, which is 0 in float32;
  the masked sum is 0, and both weights are 0/0.
\<close>

theorem global_attention_underflow:
  "global_attention
     \<lparr>attention_type = ''global'', attn_temperature = None, attn_window_size = 0,
       binary = False, convolutions = [], maxout_stride = None, bidir = True,
       time_pooling = [], final_state = ''last'', layers = 1\<rparr>
     \<lparr>batch_size = 1, attn_length = 2, energy = [[0, 200]],
       encoder_input_length = [1], pos = None, pos_logit = [0]\<rparr> = [[NaN, NaN]]"
  by (simp add: global_attention_def subtract_row_max_def reduce_max_def sequence_mask_def
      temperature_def tf_sum_def to_float_def upt_conv_Cons numeral_2_eq_2
      float32_exp_0 float32_exp_minus_200)

text \<open>
  Claim C6 says that every normalisation of energies into weights subtracts the row
  maximum, clamps the denominator and guards zero-length rows with an epsilon, so that no
  division is undefined. \<^verbatim>\<open>softmax\<close>, which local attention uses, clamps the denominator
  and does not subtract the maximum: an energy of 200 gives an infinite weight, and a NaN
  row when the mask excludes its position. \<^verbatim>\<open>global_attention\<close> subtracts the maximum
  and \<^verbatim>\<open>average_attention\<close> does nothing; neither clamps nor adds an epsilon: on a row of
  valid length 0 both divide 0 by 0.
\<close>

theorem normalisation_unguarded:
  "softmax [[200, 0]] None = [[PInf, Fin (1 / 10 ^ 38)]]
   \<and> softmax [[200, 0]] (Some [[0, 1]]) = [[NaN, NaN]]
   \<and> global_attention
     \<lparr>attention_type = ''global'', attn_temperature = None, attn_window_size = 0,
       binary = False, convolutions = [], maxout_stride = None, bidir = True,
       time_pooling = [], final_state = ''last'', layers = 1\<rparr>
     \<lparr>batch_size = 1, attn_length = 2, energy = [[0, 0]],
       encoder_input_length = [0], pos = None, pos_logit = [0]\<rparr> = [[NaN, NaN]]
   \<and> average_attention
     \<lparr>attention_type = ''average'', attn_temperature = None, attn_window_size = 0,
       binary = False, convolutions = [], maxout_stride = None, bidir = True,
       time_pooling = [], final_state = ''last'', layers = 1\<rparr>
     \<lparr>batch_size = 1, attn_length = 2, energy = [[0, 0]],
       encoder_input_length = [0], pos = None, pos_logit = [0]\<rparr> = [[NaN, NaN]]"
  by (simp add: softmax_def global_attention_def average_attention_def subtract_row_max_def
      reduce_max_def sequence_mask_def temperature_def tf_sum_def clip_by_value_def
      to_float_def upt_conv_Cons numeral_2_eq_2 float32_exp_0 float32_exp_200)

end
